theory Spec2Isabelle
  imports Main
begin

section \<open>Domain types (types/models.ts, types/api.ts)\<close>

text \<open>
  The \<open>User\<close> interface. The field \<open>id\<close> is called \<open>id_user\<close> here, since
  \<open>id\<close> is the identity function of HOL. Optional fields are options; the
  \<open>Date | string\<close> stamps are kept as strings.
\<close>

record User =
  id_user :: string
  email :: string
  firstName :: string
  lastName :: string
  username :: "string option"
  avatar :: "string option"
  bio :: "string option"
  phone :: "string option"
  website :: "string option"
  location :: "string option"
  emailVerified :: bool
  createdAt :: string
  updatedAt :: string

text \<open>
  \<open>AuthResponse\<close>: \<open>{user, accessToken, refreshToken, expiresAt}\<close>. The first three
  fields carry the prefix \<open>resp\<close>, because the store record below owns the plain names.
  \<open>expiresAt\<close> is a number, an epoch in milliseconds; the model has the integer-valued
  numbers (see the section on numbers).
\<close>

record AuthResponse =
  respUser :: User
  respAccessToken :: string
  respRefreshToken :: string
  expiresAt :: int

text \<open>\<open>ApiError\<close>: \<open>{status, message, code?}\<close> (\<open>errors\<close> and \<open>retryAttempt\<close> are never read).\<close>

record ApiError =
  status :: int
  message :: string
  code :: "string option"

text \<open>
  What a JavaScript \<open>throw\<close> carries in this code: an \<open>ApiError\<close> object literal
  (not an instance of \<open>Error\<close>), or an \<open>Error\<close> instance with its message (the
  \<open>TypeError\<close> of a failed \<open>fetch\<close>).
\<close>

datatype Thrown = ThrownApiError ApiError | ThrownError string

section \<open>JavaScript truthiness of \<open>string | null\<close>\<close>

text \<open>\<open>!x\<close> holds for \<open>null\<close> and for the empty string.\<close>

fun truthy :: "string option \<Rightarrow> bool" where
  "truthy None = False"
| "truthy (Some s) = (s \<noteq> [])"

text \<open>\<open>a || b\<close> on strings: \<open>b\<close> when \<open>a\<close> is the empty string.\<close>

definition or_default :: "string \<Rightarrow> string \<Rightarrow> string" where
  "or_default a b = (if a = [] then b else a)"

section \<open>The auth store (store/authSlice.ts)\<close>

record AuthState =
  user :: "User option"
  accessToken :: "string option"
  refreshToken :: "string option"
  isAuthenticated :: bool
  isLoading :: bool
  isInitialized :: bool
  error :: "string option"

definition initialState :: AuthState where
  "initialState =
     \<lparr> user = None, accessToken = None, refreshToken = None, isAuthenticated = False,
       isLoading = False, isInitialized = False, error = None \<rparr>"

text \<open>Each action is one \<open>set({...})\<close>, which merges the given fields into the state.\<close>

definition setAuth :: "User \<Rightarrow> string \<Rightarrow> string \<Rightarrow> AuthState \<Rightarrow> AuthState" where
  "setAuth u a r s =
     s\<lparr> user := Some u, accessToken := Some a, refreshToken := Some r,
        isAuthenticated := True, isLoading := False, error := None \<rparr>"

definition clearAuth :: "AuthState \<Rightarrow> AuthState" where
  "clearAuth s =
     s\<lparr> user := None, accessToken := None, refreshToken := None,
        isAuthenticated := False, isLoading := False, error := None \<rparr>"

definition setUser :: "User \<Rightarrow> AuthState \<Rightarrow> AuthState" where
  "setUser u s = s\<lparr> user := Some u \<rparr>"

definition setTokens :: "string \<Rightarrow> string \<Rightarrow> AuthState \<Rightarrow> AuthState" where
  "setTokens a r s = s\<lparr> accessToken := Some a, refreshToken := Some r \<rparr>"

definition setLoading :: "bool \<Rightarrow> AuthState \<Rightarrow> AuthState" where
  "setLoading b s = s\<lparr> isLoading := b \<rparr>"

definition setError :: "string option \<Rightarrow> AuthState \<Rightarrow> AuthState" where
  "setError e s = s\<lparr> error := e \<rparr>"

definition setInitialized :: "bool \<Rightarrow> AuthState \<Rightarrow> AuthState" where
  "setInitialized b s = s\<lparr> isInitialized := b \<rparr>"

text \<open>
  \<open>initialize\<close> reads \<open>isInitialized\<close>, \<open>accessToken\<close> and \<open>refreshToken\<close> once, returns
  at once when already initialised, and otherwise performs three \<open>set\<close> calls. Nothing
  in its \<open>try\<close> block can throw, so the \<open>catch\<close> branch has no counterpart; it has no
  \<open>await\<close>, so it runs as one step.
\<close>

definition initialize :: "AuthState \<Rightarrow> AuthState" where
  "initialize s =
     (if isInitialized s then s
      else
        let s1 = s\<lparr> isLoading := True \<rparr>;
            s2 = (if truthy (accessToken s) \<and> truthy (refreshToken s)
                  then s1\<lparr> isAuthenticated := True \<rparr>
                  else s1\<lparr> isAuthenticated := False \<rparr>)
        in s2\<lparr> isLoading := False, isInitialized := True \<rparr>)"

definition reset :: "AuthState \<Rightarrow> AuthState" where
  "reset s =
     s\<lparr> user := user initialState, accessToken := accessToken initialState,
        refreshToken := refreshToken initialState,
        isAuthenticated := isAuthenticated initialState,
        isLoading := isLoading initialState, isInitialized := isInitialized initialState,
        error := error initialState \<rparr>"

text \<open>The store's operations as values, with the argument types of the interface.\<close>

datatype AuthAction =
    SetAuth User string string
  | ClearAuth
  | SetUser User
  | SetTokens string string
  | SetLoading bool
  | SetError "string option"
  | SetInitialized bool
  | Initialize
  | Reset

fun dispatch :: "AuthAction \<Rightarrow> AuthState \<Rightarrow> AuthState" where
  "dispatch (SetAuth u a r) s = setAuth u a r s"
| "dispatch ClearAuth s = clearAuth s"
| "dispatch (SetUser u) s = setUser u s"
| "dispatch (SetTokens a r) s = setTokens a r s"
| "dispatch (SetLoading b) s = setLoading b s"
| "dispatch (SetError e) s = setError e s"
| "dispatch (SetInitialized b) s = setInitialized b s"
| "dispatch Initialize s = initialize s"
| "dispatch Reset s = reset s"

text \<open>The states of the store: the initial one and whatever the operations make of it.\<close>

inductive reachable :: "AuthState \<Rightarrow> bool" where
  reachable_init: "reachable initialState"
| reachable_step: "reachable s \<Longrightarrow> reachable (dispatch a s)"

definition tokens_invariant :: "AuthState \<Rightarrow> bool" where
  "tokens_invariant s =
     (isAuthenticated s \<longrightarrow> accessToken s \<noteq> None \<and> refreshToken s \<noteq> None)"

section \<open>Secure storage (services/storage/SecureStorage.ts)\<close>

text \<open>
  The platform key store (\<open>expo-secure-store\<close>, or \<open>localStorage\<close> on the web) is a map
  from keys to strings. Its calls may throw; whether a call on a key throws is an input
  of the model. \<open>stringifyCredentials email refreshToken\<close> stands for
  \<open>JSON.stringify({email, refreshToken})\<close>, a library function.

  The last two fields are what the JavaScript engine does with numbers that are not
  safe integers (see the section on numbers): \<open>largeToString n\<close> is what
  \<open>Number.prototype.toString\<close> prints for such a number (exponent form from \<open>1e21\<close> on),
  and \<open>roundToNumber v\<close> is the number that the engine takes for an integer \<open>v\<close> that
  is not safe. Both are inputs: the model fixes nothing about them.
\<close>

record Platform =
  getThrows :: "string \<Rightarrow> bool"
  setThrows :: "string \<Rightarrow> bool"
  deleteThrows :: "string \<Rightarrow> bool"
  stringifyCredentials :: "string \<Rightarrow> string \<Rightarrow> string"
  largeToString :: "int \<Rightarrow> string"
  roundToNumber :: "int \<Rightarrow> int"

text \<open>
  The calls made to the remote identity service are recorded in \<open>gatewayLog\<close>, in
  order, so that "no call" and "one call" can be stated.
\<close>

datatype GatewayCall = LoginCall string string | RefreshCall string | LogoutCall

record World =
  store :: AuthState
  vault :: "string \<rightharpoonup> string"
  gatewayLog :: "GatewayCall list"

text \<open>Each wrapper catches what the platform throws: \<open>null\<close> or \<open>false\<close> is returned.\<close>

definition getSecureValue :: "Platform \<Rightarrow> string \<Rightarrow> World \<Rightarrow> string option \<times> World" where
  "getSecureValue p key w = (if getThrows p key then (None, w) else (vault w key, w))"

definition setSecureValue :: "Platform \<Rightarrow> string \<Rightarrow> string \<Rightarrow> World \<Rightarrow> bool \<times> World" where
  "setSecureValue p key v w =
     (if setThrows p key then (False, w) else (True, w\<lparr> vault := (vault w)(key \<mapsto> v) \<rparr>))"

definition deleteSecureValue :: "Platform \<Rightarrow> string \<Rightarrow> World \<Rightarrow> bool \<times> World" where
  "deleteSecureValue p key w =
     (if deleteThrows p key then (False, w) else (True, w\<lparr> vault := (vault w)(key := None) \<rparr>))"

section \<open>Error interceptor (services/api/interceptors.ts)\<close>

definition handleUnauthorizedError :: "ApiError \<Rightarrow> AuthState \<Rightarrow> ApiError \<times> AuthState" where
  "handleUnauthorizedError e s =
     (if \<not> truthy (refreshToken s)
      then (e\<lparr> message := ''Session expired. Please sign in again.'' \<rparr>, clearAuth s)
      else (e, s))"

text \<open>The \<open>switch\<close> on \<open>error.status\<close> of the error interceptor; logging is left out.\<close>

definition errorInterceptor :: "ApiError \<Rightarrow> AuthState \<Rightarrow> ApiError \<times> AuthState" where
  "errorInterceptor e s =
     (if status e = 401 then handleUnauthorizedError e s
      else if status e = 403
        then (e\<lparr> message := ''You do not have permission to perform this action'' \<rparr>, s)
      else if status e = 404
        then (e\<lparr> message := or_default (message e) ''Resource not found'' \<rparr>, s)
      else if status e = 422
        then (e\<lparr> message := or_default (message e) ''Validation failed'' \<rparr>, s)
      else if status e = 429
        then (e\<lparr> message := ''Too many requests. Please try again later.'' \<rparr>, s)
      else if status e = 500 \<or> status e = 502 \<or> status e = 503
        then (e\<lparr> message := ''Server error. Please try again later.'' \<rparr>, s)
      else (e\<lparr> message := or_default (message e) ''An unexpected error occurred'' \<rparr>, s))"

section \<open>API client (services/api/ApiClient.ts)\<close>

text \<open>
  The \<open>errorData\<close> of \<open>handleError\<close>, of type \<open>any\<close>: what \<open>response.json()\<close> gives for
  the body of an error answer. It is \<open>null\<close> (then reading \<open>errorData.message\<close> throws a
  \<open>TypeError\<close>, whose message, worded by the engine, is the argument), or any other value,
  of which only the properties \<open>message\<close> and \<open>code\<close> are read (\<open>None\<close> when absent). A
  body that is not JSON makes \<open>errorData\<close> the object \<open>{message: response.statusText}\<close>.
\<close>

datatype ErrorData =
    NullData string
  | ObjectData "string option" "string option"

text \<open>
  What happens to one request: an \<open>Error\<close> is thrown (\<open>fetch\<close> rejects with a
  \<open>TypeError\<close> when the network is down, or the body of the answer cannot be parsed), it
  is aborted by the 30 s timer, it is answered with a status outside 200..299 and some
  error data, or it is answered with a body, parsed. The body of a good answer has the
  type that the call declares (\<open>post<AuthResponse>\<close>).
\<close>

datatype 'a FetchOutcome =
    FetchRejected string
  | FetchAborted
  | ResponseError int ErrorData
  | ResponseOk 'a

text \<open>
  \<open>request\<close>, with \<open>handleError\<close> inlined. The error interceptors are the one that the
  constructor registers through \<open>setupInterceptors\<close>; nothing else registers one. A
  rejected \<open>fetch\<close> is rethrown as it is, past the interceptors, and so is the
  \<open>TypeError\<close> that \<open>handleError\<close> throws on \<open>null\<close> error data, before it has built the
  \<open>ApiError\<close>. The request interceptors only add headers.
\<close>

definition request :: "'a FetchOutcome \<Rightarrow> AuthState \<Rightarrow> (Thrown + 'a) \<times> AuthState" where
  "request outcome s =
     (case outcome of
        ResponseOk body \<Rightarrow> (Inr body, s)
      | ResponseError st (NullData typeErrorMessage) \<Rightarrow> (Inl (ThrownError typeErrorMessage), s)
      | ResponseError st (ObjectData msg cd) \<Rightarrow>
          (let err = \<lparr> status = st,
                       message = (case msg of
                                    Some m \<Rightarrow> or_default m ''An error occurred''
                                  | None \<Rightarrow> ''An error occurred''),
                       code = cd \<rparr>;
               (processedError, s') = errorInterceptor err s
           in (Inl (ThrownApiError processedError), s'))
      | FetchAborted \<Rightarrow>
          (let timeoutError = \<lparr> status = 408, message = ''Request timeout'', code = Some ''TIMEOUT'' \<rparr>;
               (processedError, s') = errorInterceptor timeoutError s
           in (Inl (ThrownApiError processedError), s'))
      | FetchRejected m \<Rightarrow> (Inl (ThrownError m), s))"

definition gatewayCall :: "GatewayCall \<Rightarrow> World \<Rightarrow> World" where
  "gatewayCall c w = w\<lparr> gatewayLog := gatewayLog w @ [c] \<rparr>"

text \<open>The response of a request that is under way arrives: \<open>request\<close> on the live store.\<close>

definition respond :: "'a FetchOutcome \<Rightarrow> World \<Rightarrow> (Thrown + 'a) \<times> World" where
  "respond outcome w = (let (r, s') = request outcome (store w) in (r, w\<lparr> store := s' \<rparr>))"

section \<open>Auth service (services/api/AuthService.ts)\<close>

text \<open>The remote identity service: what it answers to each of the three requests.\<close>

record Gateway =
  loginFetch :: "string \<Rightarrow> string \<Rightarrow> AuthResponse FetchOutcome"
  refreshFetch :: "string \<Rightarrow> AuthResponse FetchOutcome"
  logoutFetch :: "unit FetchOutcome"

definition AuthService_login ::
    "Gateway \<Rightarrow> string \<Rightarrow> string \<Rightarrow> World \<Rightarrow> (Thrown + AuthResponse) \<times> World" where
  "AuthService_login gw em pw w =
     respond (loginFetch gw em pw) (gatewayCall (LoginCall em pw) w)"

definition AuthService_refreshSession ::
    "Gateway \<Rightarrow> string \<Rightarrow> World \<Rightarrow> (Thrown + AuthResponse) \<times> World" where
  "AuthService_refreshSession gw tok w =
     respond (refreshFetch gw tok) (gatewayCall (RefreshCall tok) w)"

text \<open>\<open>AuthService.logout\<close> catches the error of its request and returns normally.\<close>

definition AuthService_logout :: "Gateway \<Rightarrow> World \<Rightarrow> (Thrown + unit) \<times> World" where
  "AuthService_logout gw w =
     (case respond (logoutFetch gw) (gatewayCall LogoutCall w) of
        (Inr u, w') \<Rightarrow> (Inr (), w')
      | (Inl err, w') \<Rightarrow> (Inr (), w'))"

section \<open>Numbers and strings\<close>

text \<open>
  A JavaScript number is a double. The numbers of this program are epochs and
  differences of epochs in milliseconds, and the model has the integer-valued ones, as
  \<open>int\<close>. On the safe integers, from \<open>-(2^53 - 1)\<close> to \<open>2^53 - 1\<close>, a double is exact: the
  model computes there. An integer outside that range is first replaced by the number
  the engine takes for it, \<open>roundToNumber\<close>, which the model leaves open.
\<close>

definition MAX_SAFE_INTEGER :: int where
  "MAX_SAFE_INTEGER = 2 ^ 53 - 1"

definition isSafeInteger :: "int \<Rightarrow> bool" where
  "isSafeInteger n = (- MAX_SAFE_INTEGER \<le> n \<and> n \<le> MAX_SAFE_INTEGER)"

definition toNumber :: "Platform \<Rightarrow> int \<Rightarrow> int" where
  "toNumber p v = (if isSafeInteger v then v else roundToNumber p v)"

text \<open>
  \<open>n.toString()\<close>: for a safe integer its decimal digits, after a minus sign when it is
  negative; for any other number what the engine prints, \<open>largeToString\<close>.
\<close>

definition digit_char :: "nat \<Rightarrow> char" where
  "digit_char d = char_of (48 + d)"

function nat_digits :: "nat \<Rightarrow> string" where
  "nat_digits n = (if n < 10 then [digit_char n] else nat_digits (n div 10) @ [digit_char (n mod 10)])"
  by pat_completeness auto
termination
  by (relation "measure (\<lambda>n. n)") auto

definition decimal :: "int \<Rightarrow> string" where
  "decimal i = (if i < 0 then CHR ''-'' # nat_digits (nat (- i)) else nat_digits (nat i))"

definition toString :: "Platform \<Rightarrow> int \<Rightarrow> string" where
  "toString p n = (if isSafeInteger n then decimal n else largeToString p n)"

text \<open>
  \<open>parseInt(s, 10)\<close>: leading white space is skipped, one sign is read, then the longest
  run of decimal digits; with no digit the result is \<open>NaN\<close>, which is \<open>None\<close> here;
  otherwise it is the number for the integer that the digits write. A string is a
  sequence of code units below 256; the white space among these is the six ASCII
  characters and the no-break space.
\<close>

definition isWhiteSpace :: "char \<Rightarrow> bool" where
  "isWhiteSpace c =
     (c \<in> set [CHR '' '', CHR 0x09, CHR 0x0A, CHR 0x0B, CHR 0x0C, CHR 0x0D, CHR 0xA0])"

definition isDigit :: "char \<Rightarrow> bool" where
  "isDigit c = (48 \<le> (of_char c :: nat) \<and> (of_char c :: nat) \<le> 57)"

definition digit_value :: "char \<Rightarrow> int" where
  "digit_value c = int (of_char c) - 48"

definition digits_value :: "string \<Rightarrow> int" where
  "digits_value ds = foldl (\<lambda>acc c. 10 * acc + digit_value c) 0 ds"

definition parseInt :: "Platform \<Rightarrow> string \<Rightarrow> int option" where
  "parseInt p s =
     (let t = dropWhile isWhiteSpace s;
          (negative, u) = (case t of
                             c # r \<Rightarrow> (if c = CHR ''-'' then (True, r)
                                       else if c = CHR ''+'' then (False, r)
                                       else (False, t))
                           | [] \<Rightarrow> (False, t));
          ds = takeWhile isDigit u
      in if ds = [] then None
         else Some (toNumber p (if negative then - digits_value ds else digits_value ds)))"

section \<open>The auth hook (hooks/useAuth.ts)\<close>

definition ACCESS_TOKEN_KEY :: string where
  "ACCESS_TOKEN_KEY = ''access_token''"

definition REFRESH_TOKEN_KEY :: string where
  "REFRESH_TOKEN_KEY = ''refresh_token''"

definition TOKEN_EXPIRY_KEY :: string where
  "TOKEN_EXPIRY_KEY = ''token_expiry''"

definition REFRESH_THRESHOLD :: int where
  "REFRESH_THRESHOLD = 5 * 60 * 1000"

text \<open>
  \<open>shouldRefreshToken\<close>, with \<open>Date.now()\<close> as the argument \<open>now\<close>. The difference is a
  number again. A comparison with \<open>NaN\<close> is false. Nothing in the \<open>try\<close> block throws.
\<close>

definition shouldRefreshToken :: "Platform \<Rightarrow> int \<Rightarrow> World \<Rightarrow> bool \<times> World" where
  "shouldRefreshToken p now w =
     (let (expiryString, w1) = getSecureValue p TOKEN_EXPIRY_KEY w
      in if \<not> truthy expiryString then (False, w1)
         else (case expiryString of
                 None \<Rightarrow> (False, w1)
               | Some es \<Rightarrow>
                   (case parseInt p es of
                      None \<Rightarrow> (False, w1)
                    | Some expiry \<Rightarrow> (toNumber p (expiry - now) < REFRESH_THRESHOLD, w1))))"

text \<open>
  \<open>logout\<close>: the remote call in \<open>try\<close>, its error logged in \<open>catch\<close>, and in \<open>finally\<close> the
  three deletions followed by \<open>clearAuth\<close>.
\<close>

definition logout :: "Gateway \<Rightarrow> Platform \<Rightarrow> World \<Rightarrow> World" where
  "logout gw p w =
     (let w1 = (case AuthService_logout gw w of
                  (Inr u, w') \<Rightarrow> w'
                | (Inl err, w') \<Rightarrow> w');
          w2 = snd (deleteSecureValue p ACCESS_TOKEN_KEY w1);
          w3 = snd (deleteSecureValue p REFRESH_TOKEN_KEY w2);
          w4 = snd (deleteSecureValue p TOKEN_EXPIRY_KEY w3)
      in w4\<lparr> store := clearAuth (store w4) \<rparr>)"

text \<open>
  \<open>refreshSession\<close> in two parts, cut at its \<open>await\<close> of the remote call. The first part
  runs up to the moment the request is sent: \<open>captured\<close> is the \<open>refreshToken\<close> of the
  render that made the callback; the key store is read only when that one is falsy.
\<close>

datatype RefreshPhase = Finished bool | AwaitingGateway string

definition refreshSession_begin :: "Platform \<Rightarrow> string option \<Rightarrow> World \<Rightarrow> RefreshPhase \<times> World" where
  "refreshSession_begin p captured w =
     (let (currentRefreshToken, w1) =
            (if truthy captured then (captured, w) else getSecureValue p REFRESH_TOKEN_KEY w)
      in (case currentRefreshToken of
            None \<Rightarrow> (Finished False, w1\<lparr> store := clearAuth (store w1) \<rparr>)
          | Some tok \<Rightarrow>
              (if tok = [] then (Finished False, w1\<lparr> store := clearAuth (store w1) \<rparr>)
               else (AwaitingGateway tok, gatewayCall (RefreshCall tok) w1))))"

text \<open>
  The second part runs when the answer arrives: the client turns it into a value or a
  throw, then the new tokens are saved and \<open>setAuth\<close> is called, or \<open>logout\<close> is.
\<close>

definition refreshSession_resume :: "Gateway \<Rightarrow> Platform \<Rightarrow> string \<Rightarrow> World \<Rightarrow> bool \<times> World" where
  "refreshSession_resume gw p tok w =
     (case respond (refreshFetch gw tok) w of
        (Inr response, w1) \<Rightarrow>
          (let w2 = snd (setSecureValue p ACCESS_TOKEN_KEY (respAccessToken response) w1);
               w3 = snd (setSecureValue p REFRESH_TOKEN_KEY (respRefreshToken response) w2);
               w4 = snd (setSecureValue p TOKEN_EXPIRY_KEY (toString p (expiresAt response)) w3)
           in (True, w4\<lparr> store := setAuth (respUser response) (respAccessToken response)
                                         (respRefreshToken response) (store w4) \<rparr>))
      | (Inl err, w1) \<Rightarrow> (False, logout gw p w1))"

text \<open>
  \<open>refreshSession\<close> with nothing running in between. The callback is a closure:
  \<open>captured\<close> is the \<open>refreshToken\<close> that \<open>useAuthStore()\<close> gave to the render that made it.
  For the callback of the latest render it is \<open>refreshToken (store w)\<close>; a callback kept
  from an earlier render holds the token of that time.
\<close>

definition refreshSession :: "Gateway \<Rightarrow> Platform \<Rightarrow> string option \<Rightarrow> World \<Rightarrow> bool \<times> World" where
  "refreshSession gw p captured w =
     (case refreshSession_begin p captured w of
        (Finished b, w1) \<Rightarrow> (b, w1)
      | (AwaitingGateway tok, w1) \<Rightarrow> refreshSession_resume gw p tok w1)"

text \<open>\<open>login\<close>: \<open>try ... finally\<close> without \<open>catch\<close>, so the error of the call is rethrown.\<close>

definition login ::
    "Gateway \<Rightarrow> Platform \<Rightarrow> string \<Rightarrow> string \<Rightarrow> World \<Rightarrow> (Thrown + unit) \<times> World" where
  "login gw p em pw w =
     (let w0 = w\<lparr> store := setLoading True (store w) \<rparr>
      in (case AuthService_login gw em pw w0 of
            (Inr response, w1) \<Rightarrow>
              (let w2 = snd (setSecureValue p ACCESS_TOKEN_KEY (respAccessToken response) w1);
                   w3 = snd (setSecureValue p REFRESH_TOKEN_KEY (respRefreshToken response) w2);
                   w4 = snd (setSecureValue p TOKEN_EXPIRY_KEY (toString p (expiresAt response)) w3);
                   w5 = w4\<lparr> store := setAuth (respUser response) (respAccessToken response)
                                            (respRefreshToken response) (store w4) \<rparr>
               in (Inr (), w5\<lparr> store := setLoading False (store w5) \<rparr>))
          | (Inl err, w1) \<Rightarrow> (Inl err, w1\<lparr> store := setLoading False (store w1) \<rparr>)))"

section \<open>The auth view model (screens/auth/AuthViewModel.ts)\<close>

definition BIOMETRIC_CREDENTIALS_KEY :: string where
  "BIOMETRIC_CREDENTIALS_KEY = ''biometric_credentials''"

definition REMEMBER_ME_KEY :: string where
  "REMEMBER_ME_KEY = ''remember_me_email''"

text \<open>The three \<open>useState\<close> cells of the view model.\<close>

record ViewModel =
  vmIsLoading :: bool
  vmError :: "string option"
  hasBiometrics :: bool

definition clearError :: "ViewModel \<times> World \<Rightarrow> ViewModel \<times> World" where
  "clearError vw =
     (case vw of (vm, w) \<Rightarrow> (vm\<lparr> vmError := None \<rparr>, w\<lparr> store := setError None (store w) \<rparr>))"

text \<open>\<open>err instanceof Error ? err.message : 'Login failed'\<close>.\<close>

definition loginErrorMessage :: "Thrown \<Rightarrow> string" where
  "loginErrorMessage err = (case err of ThrownError m \<Rightarrow> m | ThrownApiError e \<Rightarrow> ''Login failed'')"

definition vm_login ::
    "Gateway \<Rightarrow> Platform \<Rightarrow> string \<Rightarrow> string \<Rightarrow> bool \<Rightarrow> ViewModel \<times> World
       \<Rightarrow> (Thrown + unit) \<times> ViewModel \<times> World" where
  "vm_login gw p em pw rememberMe vw =
     (case vw of (vm, w) \<Rightarrow>
        (let vm0 = vm\<lparr> vmIsLoading := True \<rparr>;
             w0 = w\<lparr> store := setLoading True (store w) \<rparr>;
             (vm1, w1) = clearError (vm0, w0);
             (result, vm2, w2) =
               (case AuthService_login gw em pw w1 of
                  (Inr response, wa) \<Rightarrow>
                    (let wb = wa\<lparr> store := setAuth (respUser response) (respAccessToken response)
                                              (respRefreshToken response) (store wa) \<rparr>
                     in if rememberMe
                        then
                          (let wc = snd (setSecureValue p REMEMBER_ME_KEY em wb);
                               wd = snd (setSecureValue p BIOMETRIC_CREDENTIALS_KEY
                                           (stringifyCredentials p em (respRefreshToken response)) wc)
                           in (Inr (), vm1\<lparr> hasBiometrics := True \<rparr>, wd))
                        else (Inr (), vm1, snd (deleteSecureValue p REMEMBER_ME_KEY wb)))
                | (Inl err, wa) \<Rightarrow>
                    (let errorMessage = loginErrorMessage err
                     in (Inl err, vm1\<lparr> vmError := Some errorMessage \<rparr>,
                         wa\<lparr> store := setError (Some errorMessage) (store wa) \<rparr>)))
         in (result, vm2\<lparr> vmIsLoading := False \<rparr>,
             w2\<lparr> store := setLoading False (store w2) \<rparr>)))"

definition vm_logout :: "Gateway \<Rightarrow> Platform \<Rightarrow> ViewModel \<times> World \<Rightarrow> ViewModel \<times> World" where
  "vm_logout gw p vw =
     (case vw of (vm, w) \<Rightarrow>
        (let vm0 = vm\<lparr> vmIsLoading := True \<rparr>;
             w1 = (case AuthService_logout gw w of
                     (Inr u, w') \<Rightarrow> w'
                   | (Inl err, w') \<Rightarrow> w');
             w2 = w1\<lparr> store := clearAuth (store w1) \<rparr>;
             w3 = snd (deleteSecureValue p BIOMETRIC_CREDENTIALS_KEY w2)
         in (vm0\<lparr> hasBiometrics := False, vmIsLoading := False \<rparr>, w3)))"

text \<open>
  The interleaving: a refresh is started, \<open>logout\<close> runs to its end while the
  request is under way, then the answer arrives and the refresh goes on.
\<close>

definition refresh_then_logout_then_response ::
    "Gateway \<Rightarrow> Platform \<Rightarrow> string option \<Rightarrow> World \<Rightarrow> bool \<times> World" where
  "refresh_then_logout_then_response gw p captured w =
     (case refreshSession_begin p captured w of
        (Finished b, w1) \<Rightarrow> (b, logout gw p w1)
      | (AwaitingGateway tok, w1) \<Rightarrow> refreshSession_resume gw p tok (logout gw p w1))"

section \<open>Vocabulary of the properties, and example inputs\<close>

text \<open>
  A request fails when it is not answered with a body. It is unauthorized when it is
  answered with status 401 and error data other than \<open>null\<close>: these are the answers for
  which an \<open>ApiError\<close> of status 401 is built and given to the error interceptor.
\<close>

definition fetch_failed :: "'a FetchOutcome \<Rightarrow> bool" where
  "fetch_failed outcome = (case outcome of ResponseOk body \<Rightarrow> False | _ \<Rightarrow> True)"

definition is_unauthorized :: "'a FetchOutcome \<Rightarrow> bool" where
  "is_unauthorized outcome =
     (case outcome of ResponseError st (ObjectData msg cd) \<Rightarrow> st = 401 | _ \<Rightarrow> False)"

text \<open>The four fields of the session that the claims about login speak of.\<close>

definition same_session :: "AuthState \<Rightarrow> AuthState \<Rightarrow> bool" where
  "same_session s s' =
     (user s' = user s \<and> accessToken s' = accessToken s \<and> refreshToken s' = refreshToken s \<and>
      isAuthenticated s' = isAuthenticated s)"

definition token_keys :: "string set" where
  "token_keys = {ACCESS_TOKEN_KEY, REFRESH_TOKEN_KEY, TOKEN_EXPIRY_KEY}"

definition user0 :: User where
  "user0 =
     \<lparr> id_user = ''1'', email = ''test@example.com'', firstName = ''John'', lastName = ''Doe'',
       username = None, avatar = None, bio = None, phone = None, website = None,
       location = None, emailVerified = True, createdAt = ''2024-01-01'',
       updatedAt = ''2024-01-01'' \<rparr>"

definition response0 :: AuthResponse where
  "response0 =
     \<lparr> respUser = user0, respAccessToken = ''new-access-token'',
       respRefreshToken = ''new-refresh-token'', expiresAt = 1700003600000 \<rparr>"

text \<open>
  A platform on which no call throws. Its encoding of the credentials is an example; of
  the numbers that are not safe integers the examples use only \<open>1e21\<close>, which every
  engine prints as \<open>1e+21\<close>.
\<close>

definition reliable_platform :: Platform where
  "reliable_platform =
     \<lparr> getThrows = (\<lambda>k. False), setThrows = (\<lambda>k. False), deleteThrows = (\<lambda>k. False),
       stringifyCredentials = (\<lambda>e r. e @ '','' @ r),
       largeToString = (\<lambda>n. ''1e+21''), roundToNumber = (\<lambda>v. v) \<rparr>"

text \<open>The same platform with a key store whose reads throw (key store unavailable).\<close>

definition unreadable_platform :: Platform where
  "unreadable_platform = reliable_platform\<lparr> getThrows := (\<lambda>k. True) \<rparr>"

definition accepting_gateway :: Gateway where
  "accepting_gateway =
     \<lparr> loginFetch = (\<lambda>e p. ResponseOk response0), refreshFetch = (\<lambda>t. ResponseOk response0),
       logoutFetch = ResponseOk () \<rparr>"

definition rejecting_gateway :: Gateway where
  "rejecting_gateway =
     \<lparr> loginFetch = (\<lambda>e p. ResponseError 401 (ObjectData (Some ''Unauthorized'') None)),
       refreshFetch = (\<lambda>t. ResponseError 401 (ObjectData (Some ''Unauthorized'') None)),
       logoutFetch = ResponseError 401 (ObjectData (Some ''Unauthorized'') None) \<rparr>"

text \<open>
  A remote service that answers 401 with the JSON body \<open>null\<close>; the message is the one
  an engine gives to the \<open>TypeError\<close>.
\<close>

definition null_body_gateway :: Gateway where
  "null_body_gateway =
     \<lparr> loginFetch = (\<lambda>e p. ResponseError 401 (NullData ''Cannot read properties of null'')),
       refreshFetch = (\<lambda>t. ResponseError 401 (NullData ''Cannot read properties of null'')),
       logoutFetch = ResponseError 401 (NullData ''Cannot read properties of null'') \<rparr>"

text \<open>
  A signed-in application, with its three token entries and a biometric entry; and an
  application whose store holds a profile (\<open>setUser\<close>) but no tokens.
\<close>

definition logged_in_world :: World where
  "logged_in_world =
     \<lparr> store = setAuth user0 ''access-token'' ''refresh-token'' initialState,
       vault = [ACCESS_TOKEN_KEY \<mapsto> ''access-token'', REFRESH_TOKEN_KEY \<mapsto> ''refresh-token'',
                TOKEN_EXPIRY_KEY \<mapsto> ''1700000000000'',
                BIOMETRIC_CREDENTIALS_KEY \<mapsto> ''test@example.com,refresh-token''],
       gatewayLog = [] \<rparr>"

text \<open>A signed-in application whose expiry, \<open>1e21\<close>, was stored as \<open>login\<close> stores it.\<close>

definition far_future_world :: World where
  "far_future_world =
     \<lparr> store = setAuth user0 ''access-token'' ''refresh-token'' initialState,
       vault = [TOKEN_EXPIRY_KEY \<mapsto> toString reliable_platform (10 ^ 21)],
       gatewayLog = [] \<rparr>"

definition profile_only_world :: World where
  "profile_only_world =
     \<lparr> store = setUser user0 initialState, vault = Map.empty, gatewayLog = [] \<rparr>"

definition idle_view_model :: ViewModel where
  "idle_view_model = \<lparr> vmIsLoading = False, vmError = None, hasBiometrics = True \<rparr>"

definition unauthorized_error :: ApiError where
  "unauthorized_error = \<lparr> status = 401, message = ''Unauthorized'', code = None \<rparr>"

section \<open>The store: invariant and initialisation\<close>

lemmas store_defs = setAuth_def clearAuth_def setUser_def setTokens_def
      setLoading_def setError_def setInitialized_def initialize_def reset_def initialState_def

lemma truthy_not_None: "truthy x \<Longrightarrow> x \<noteq> None"
  by (cases x) simp_all

lemma dispatch_preserves_invariant: "tokens_invariant s \<Longrightarrow> tokens_invariant (dispatch a s)"
  by (cases a) (auto simp: tokens_invariant_def store_defs Let_def dest: truthy_not_None)

lemma reachable_invariant: "reachable s \<Longrightarrow> tokens_invariant s"
proof (induction rule: reachable.induct)
  case reachable_init
  show ?case by (simp add: tokens_invariant_def initialState_def)
next
  case (reachable_step s a)
  from reachable_step.IH show ?case by (rule dispatch_preserves_invariant)
qed

lemma clearing_is_total:
  "(accessToken s \<noteq> None \<and> accessToken (dispatch a s) = None) \<or>
   (refreshToken s \<noteq> None \<and> refreshToken (dispatch a s) = None)
   \<Longrightarrow> \<not> isAuthenticated (dispatch a s) \<and> accessToken (dispatch a s) = None
        \<and> refreshToken (dispatch a s) = None"
  by (cases a) (auto simp: store_defs Let_def split: if_splits)

text \<open>
  Claim C4. In every state that the store can reach from its initial state, being
  authenticated implies that both tokens are non-null; every operation (\<open>setAuth\<close>,
  \<open>clearAuth\<close>, \<open>setUser\<close>, \<open>setTokens\<close>, \<open>setLoading\<close>, \<open>setError\<close>, \<open>setInitialized\<close>,
  \<open>initialize\<close>, \<open>reset\<close>) leads to a state where this holds again; and an operation
  after which a token that was present is null leaves both tokens null and
  \<open>isAuthenticated\<close> false.
\<close>

theorem auth_store_invariant:
  assumes "reachable s"
  shows "tokens_invariant s \<and> tokens_invariant (dispatch a s) \<and>
         ((accessToken s \<noteq> None \<and> accessToken (dispatch a s) = None) \<or>
          (refreshToken s \<noteq> None \<and> refreshToken (dispatch a s) = None)
          \<longrightarrow> \<not> isAuthenticated (dispatch a s) \<and> accessToken (dispatch a s) = None
               \<and> refreshToken (dispatch a s) = None)"
  using assms reachable_invariant dispatch_preserves_invariant clearing_is_total by blast

theorem auth_store_invariant_witness:
  "reachable (dispatch (SetAuth user0 ''access-token'' ''refresh-token'') initialState) \<and>
   tokens_invariant (dispatch (SetAuth user0 ''access-token'' ''refresh-token'') initialState) \<and>
   tokens_invariant (dispatch ClearAuth (dispatch (SetAuth user0 ''access-token'' ''refresh-token'') initialState)) \<and>
   accessToken (dispatch (SetAuth user0 ''access-token'' ''refresh-token'') initialState) \<noteq> None \<and>
   accessToken (dispatch ClearAuth (dispatch (SetAuth user0 ''access-token'' ''refresh-token'') initialState)) = None \<and>
   refreshToken (dispatch ClearAuth (dispatch (SetAuth user0 ''access-token'' ''refresh-token'') initialState)) = None \<and>
   \<not> isAuthenticated (dispatch ClearAuth (dispatch (SetAuth user0 ''access-token'' ''refresh-token'') initialState))"
proof -
  have r: "reachable (dispatch (SetAuth user0 ''access-token'' ''refresh-token'') initialState)"
    by (rule reachable_step) (rule reachable_init)
  have c: "accessToken (dispatch (SetAuth user0 ''access-token'' ''refresh-token'') initialState) \<noteq> None"
    "accessToken (dispatch ClearAuth (dispatch (SetAuth user0 ''access-token'' ''refresh-token'') initialState)) = None"
    by (simp_all add: setAuth_def clearAuth_def)
  from auth_store_invariant [OF r, of ClearAuth] r c show ?thesis by blast
qed

text \<open>
  Claim C6. From a state that is not initialised, \<open>initialize\<close> ends with
  \<open>isInitialized\<close> true and \<open>isLoading\<close> false, and with \<open>isAuthenticated\<close> true exactly when
  both tokens are present (a token is present when it is neither null nor the empty
  string, which is what the test \<open>accessToken && refreshToken\<close> asks). After
  \<open>setTokens("existing-access", "existing-refresh")\<close> the result is authenticated; with
  no tokens it is not. \<open>initialize\<close> is a total function: it always returns.
\<close>

theorem initialize_outcome:
  assumes "\<not> isInitialized s"
  shows "isInitialized (initialize s) \<and> \<not> isLoading (initialize s) \<and>
         (isAuthenticated (initialize s) \<longleftrightarrow> truthy (accessToken s) \<and> truthy (refreshToken s)) \<and>
         isAuthenticated (initialize (setTokens ''existing-access'' ''existing-refresh'' s)) \<and>
         (accessToken s = None \<and> refreshToken s = None \<longrightarrow> \<not> isAuthenticated (initialize s))"
  using assms by (auto simp: initialize_def setTokens_def Let_def)

theorem initialize_outcome_witness:
  "\<not> isInitialized initialState \<and> isInitialized (initialize initialState) \<and>
   \<not> isLoading (initialize initialState) \<and> \<not> isAuthenticated (initialize initialState) \<and>
   isAuthenticated (initialize (setTokens ''existing-access'' ''existing-refresh'' initialState))"
proof -
  have h: "\<not> isInitialized initialState" by (simp add: initialState_def)
  have n: "accessToken initialState = None \<and> refreshToken initialState = None"
    by (simp add: initialState_def)
  from initialize_outcome [OF h] h n show ?thesis by blast
qed


section \<open>Requests, the key store and logout\<close>

lemma key_distinct:
  "ACCESS_TOKEN_KEY \<noteq> REFRESH_TOKEN_KEY" "ACCESS_TOKEN_KEY \<noteq> TOKEN_EXPIRY_KEY"
  "ACCESS_TOKEN_KEY \<noteq> BIOMETRIC_CREDENTIALS_KEY" "REFRESH_TOKEN_KEY \<noteq> ACCESS_TOKEN_KEY"
  "REFRESH_TOKEN_KEY \<noteq> TOKEN_EXPIRY_KEY" "REFRESH_TOKEN_KEY \<noteq> BIOMETRIC_CREDENTIALS_KEY"
  "TOKEN_EXPIRY_KEY \<noteq> ACCESS_TOKEN_KEY" "TOKEN_EXPIRY_KEY \<noteq> REFRESH_TOKEN_KEY"
  "TOKEN_EXPIRY_KEY \<noteq> BIOMETRIC_CREDENTIALS_KEY" "BIOMETRIC_CREDENTIALS_KEY \<noteq> ACCESS_TOKEN_KEY"
  "BIOMETRIC_CREDENTIALS_KEY \<noteq> REFRESH_TOKEN_KEY" "BIOMETRIC_CREDENTIALS_KEY \<noteq> TOKEN_EXPIRY_KEY"
  by (simp_all add: ACCESS_TOKEN_KEY_def REFRESH_TOKEN_KEY_def TOKEN_EXPIRY_KEY_def
      BIOMETRIC_CREDENTIALS_KEY_def)

lemma clearAuth_idem: "clearAuth (clearAuth s) = clearAuth s"
  by (simp add: clearAuth_def)

lemma errorInterceptor_store:
  "snd (errorInterceptor e s) =
     (if status e = 401 \<and> \<not> truthy (refreshToken s) then clearAuth s else s)"
  by (simp add: errorInterceptor_def handleUnauthorizedError_def)

lemma errorInterceptor_status: "status (fst (errorInterceptor e s)) = status e"
  by (simp add: errorInterceptor_def handleUnauthorizedError_def)

lemma request_store:
  "snd (request outcome s) =
     (if is_unauthorized outcome \<and> \<not> truthy (refreshToken s) then clearAuth s else s)"
proof (cases outcome)
  case (ResponseError st ed)
  then show ?thesis
    by (cases ed)
       (simp_all add: request_def is_unauthorized_def errorInterceptor_store split_beta Let_def)
qed (simp_all add: request_def is_unauthorized_def errorInterceptor_store split_beta Let_def)

lemma request_ok: "request (ResponseOk body) s = (Inr body, s)"
  by (simp add: request_def)

lemma request_failed: "fetch_failed outcome \<Longrightarrow> \<exists>err. fst (request outcome s) = Inl err"
proof (cases outcome)
  case (ResponseError st ed)
  then show ?thesis
    by (cases ed) (simp_all add: request_def split_beta Let_def)
qed (simp_all add: request_def fetch_failed_def split_beta Let_def)

lemma request_null_data:
  "request (ResponseError st (NullData m)) s = (Inl (ThrownError m), s)"
  by (simp add: request_def)

lemma clearAuth_request: "clearAuth (snd (request outcome s)) = clearAuth s"
  by (simp add: request_store clearAuth_idem)

lemma respond_fields:
  "store (snd (respond outcome w)) = snd (request outcome (store w))"
  "vault (snd (respond outcome w)) = vault w"
  "gatewayLog (snd (respond outcome w)) = gatewayLog w"
  "fst (respond outcome w) = fst (request outcome (store w))"
  by (simp_all add: respond_def split_beta)

lemma gatewayCall_fields:
  "store (gatewayCall c w) = store w" "vault (gatewayCall c w) = vault w"
  "gatewayLog (gatewayCall c w) = gatewayLog w @ [c]"
  by (simp_all add: gatewayCall_def)

lemma AuthService_logout_world:
  "snd (AuthService_logout gw w) = snd (respond (logoutFetch gw) (gatewayCall LogoutCall w))"
  by (simp add: AuthService_logout_def split: prod.splits sum.splits)

lemma AuthService_logout_fields:
  "store (snd (AuthService_logout gw w)) = snd (request (logoutFetch gw) (store w))"
  "vault (snd (AuthService_logout gw w)) = vault w"
  "gatewayLog (snd (AuthService_logout gw w)) = gatewayLog w @ [LogoutCall]"
  by (simp_all add: AuthService_logout_world respond_fields gatewayCall_fields)

lemma deleteSecureValue_fields:
  "store (snd (deleteSecureValue p k w)) = store w"
  "gatewayLog (snd (deleteSecureValue p k w)) = gatewayLog w"
  "vault (snd (deleteSecureValue p k w)) = (if deleteThrows p k then vault w else (vault w)(k := None))"
  by (simp_all add: deleteSecureValue_def)

lemma setSecureValue_fields:
  "store (snd (setSecureValue p k v w)) = store w"
  "gatewayLog (snd (setSecureValue p k v w)) = gatewayLog w"
  "vault (snd (setSecureValue p k v w)) = (if setThrows p k then vault w else (vault w)(k \<mapsto> v))"
  by (simp_all add: setSecureValue_def)

lemma logout_unfold:
  "logout gw p w =
     (let w1 = snd (AuthService_logout gw w);
          w2 = snd (deleteSecureValue p ACCESS_TOKEN_KEY w1);
          w3 = snd (deleteSecureValue p REFRESH_TOKEN_KEY w2);
          w4 = snd (deleteSecureValue p TOKEN_EXPIRY_KEY w3)
      in w4\<lparr> store := clearAuth (store w4) \<rparr>)"
  by (simp add: logout_def split: prod.splits sum.splits)

lemma logout_store: "store (logout gw p w) = clearAuth (store w)"
  by (simp add: logout_unfold Let_def deleteSecureValue_fields AuthService_logout_fields
      clearAuth_request)

lemma logout_log: "gatewayLog (logout gw p w) = gatewayLog w @ [LogoutCall]"
  by (simp add: logout_unfold Let_def deleteSecureValue_fields AuthService_logout_fields)

lemma logout_vault:
  "vault (logout gw p w) k =
     (if k \<in> token_keys \<and> \<not> deleteThrows p k then None else vault w k)"
  by (simp add: logout_unfold Let_def deleteSecureValue_fields AuthService_logout_fields
      token_keys_def key_distinct)

lemma vm_logout_world:
  "snd (vm_logout gw p (vm, w)) =
     snd (deleteSecureValue p BIOMETRIC_CREDENTIALS_KEY
            ((snd (AuthService_logout gw w))\<lparr> store := clearAuth (store (snd (AuthService_logout gw w))) \<rparr>))"
  by (simp add: vm_logout_def Let_def split: prod.splits sum.splits)

lemma vm_logout_store: "store (snd (vm_logout gw p (vm, w))) = clearAuth (store w)"
  by (simp add: vm_logout_world deleteSecureValue_fields AuthService_logout_fields clearAuth_request)

lemma vm_logout_vault:
  "vault (snd (vm_logout gw p (vm, w))) k =
     (if k = BIOMETRIC_CREDENTIALS_KEY \<and> \<not> deleteThrows p k then None else vault w k)"
  by (auto simp: vm_logout_world deleteSecureValue_fields AuthService_logout_fields)

lemma clearAuth_fields:
  "\<not> isAuthenticated (clearAuth s)" "user (clearAuth s) = None"
  "accessToken (clearAuth s) = None" "refreshToken (clearAuth s) = None"
  by (simp_all add: clearAuth_def)

text \<open>
  Claim C1, as the code has it. Whatever the remote logout call does, after either
  \<open>logout\<close> the store is the cleared one: \<open>isAuthenticated\<close> false, \<open>user\<close>, \<open>accessToken\<close>
  and \<open>refreshToken\<close> null. The hook's \<open>logout\<close> removes the entries \<open>access_token\<close>,
  \<open>refresh_token\<close> and \<open>token_expiry\<close> (each one unless the platform throws on its
  deletion) and leaves every other entry as it was; the view model's \<open>logout\<close> removes
  \<open>biometric_credentials\<close> (unless the platform throws) and leaves every other entry as
  it was.
\<close>

theorem logout_clears_session_and_own_entries:
  "store (logout gw p w) = clearAuth (store w) \<and>
   \<not> isAuthenticated (store (logout gw p w)) \<and> user (store (logout gw p w)) = None \<and>
   accessToken (store (logout gw p w)) = None \<and> refreshToken (store (logout gw p w)) = None \<and>
   (\<forall>k \<in> token_keys. \<not> deleteThrows p k \<longrightarrow> vault (logout gw p w) k = None) \<and>
   (\<forall>k. k \<notin> token_keys \<longrightarrow> vault (logout gw p w) k = vault w k) \<and>
   store (snd (vm_logout gw p (vm, w))) = clearAuth (store w) \<and>
   (\<not> deleteThrows p BIOMETRIC_CREDENTIALS_KEY
      \<longrightarrow> vault (snd (vm_logout gw p (vm, w))) BIOMETRIC_CREDENTIALS_KEY = None) \<and>
   (\<forall>k. k \<noteq> BIOMETRIC_CREDENTIALS_KEY \<longrightarrow> vault (snd (vm_logout gw p (vm, w))) k = vault w k)"
  by (simp add: logout_store logout_vault vm_logout_store vm_logout_vault clearAuth_fields)

lemma logged_in_vault:
  "vault logged_in_world ACCESS_TOKEN_KEY = Some ''access-token''"
  "vault logged_in_world REFRESH_TOKEN_KEY = Some ''refresh-token''"
  "vault logged_in_world TOKEN_EXPIRY_KEY = Some ''1700000000000''"
  "vault logged_in_world BIOMETRIC_CREDENTIALS_KEY = Some ''test@example.com,refresh-token''"
  by (simp_all add: logged_in_world_def key_distinct)

lemma reliable_platform_fields:
  "\<not> getThrows reliable_platform k" "\<not> setThrows reliable_platform k"
  "\<not> deleteThrows reliable_platform k"
  by (simp_all add: reliable_platform_def)

lemma biometric_not_token_key: "BIOMETRIC_CREDENTIALS_KEY \<notin> token_keys"
  by (simp add: token_keys_def key_distinct)

lemma token_keys_members:
  "ACCESS_TOKEN_KEY \<in> token_keys" "REFRESH_TOKEN_KEY \<in> token_keys" "TOKEN_EXPIRY_KEY \<in> token_keys"
  by (simp_all add: token_keys_def)

theorem logout_clears_session_and_own_entries_witness:
  "\<not> isAuthenticated (store (logout rejecting_gateway reliable_platform logged_in_world)) \<and>
   vault (logout rejecting_gateway reliable_platform logged_in_world) ACCESS_TOKEN_KEY = None \<and>
   vault (logout rejecting_gateway reliable_platform logged_in_world) REFRESH_TOKEN_KEY = None \<and>
   vault (logout rejecting_gateway reliable_platform logged_in_world) TOKEN_EXPIRY_KEY = None \<and>
   vault (logout rejecting_gateway reliable_platform logged_in_world) BIOMETRIC_CREDENTIALS_KEY
     = Some ''test@example.com,refresh-token'' \<and>
   vault (snd (vm_logout rejecting_gateway reliable_platform (idle_view_model, logged_in_world)))
     BIOMETRIC_CREDENTIALS_KEY = None \<and>
   vault (snd (vm_logout rejecting_gateway reliable_platform (idle_view_model, logged_in_world)))
     ACCESS_TOKEN_KEY = Some ''access-token''"
  using logout_clears_session_and_own_entries
          [of rejecting_gateway reliable_platform logged_in_world idle_view_model]
        reliable_platform_fields(3) biometric_not_token_key token_keys_members
        logged_in_vault key_distinct
  by (metis (no_types, lifting))

text \<open>
  Against C1 as stated: after the hook's \<open>logout\<close> the \<open>biometric_credentials\<close> entry is
  still there, and after the view model's \<open>logout\<close> the \<open>access_token\<close> entry is.
\<close>

theorem logout_leaves_other_entries:
  "vault (logout accepting_gateway reliable_platform logged_in_world) BIOMETRIC_CREDENTIALS_KEY
     = Some ''test@example.com,refresh-token'' \<and>
   vault (snd (vm_logout accepting_gateway reliable_platform (idle_view_model, logged_in_world)))
     ACCESS_TOKEN_KEY = Some ''access-token''"
  by (simp add: logout_vault vm_logout_vault biometric_not_token_key logged_in_vault key_distinct)

text \<open>
  Claim C9. \<open>clearAuth\<close> applied twice gives what it gives applied once, and on the
  cleared initial state it changes nothing. Two \<open>logout\<close> calls in a row, on the same
  platform and whatever the remote service answers to each, leave the store and the key
  store as one call does.
\<close>

theorem clear_and_logout_idempotent:
  "clearAuth (clearAuth s) = clearAuth s \<and>
   clearAuth initialState = initialState \<and>
   store (logout gw' p (logout gw p w)) = store (logout gw p w) \<and>
   vault (logout gw' p (logout gw p w)) = vault (logout gw p w)"
proof -
  have "vault (logout gw' p (logout gw p w)) k = vault (logout gw p w) k" for k
    by (simp add: logout_vault)
  then have "vault (logout gw' p (logout gw p w)) = vault (logout gw p w)" by (rule ext)
  then show ?thesis by (simp add: logout_store clearAuth_idem) (simp add: clearAuth_def initialState_def)
qed

theorem clear_and_logout_idempotent_witness:
  "store (logout accepting_gateway reliable_platform
            (logout rejecting_gateway reliable_platform logged_in_world))
     = store (logout rejecting_gateway reliable_platform logged_in_world) \<and>
   vault (logout accepting_gateway reliable_platform
            (logout rejecting_gateway reliable_platform logged_in_world))
     = vault (logout rejecting_gateway reliable_platform logged_in_world)"
  using clear_and_logout_idempotent
          [of initialState accepting_gateway reliable_platform rejecting_gateway logged_in_world]
  by blast

section \<open>Refreshing the session\<close>

lemma truthy_cases: "truthy x \<longleftrightarrow> (\<exists>s. x = Some s \<and> s \<noteq> [])"
  by (cases x) simp_all

lemma refreshSession_begin_awaiting:
  assumes "fst (refreshSession_begin p c w) = AwaitingGateway tok"
  shows "snd (refreshSession_begin p c w) = gatewayCall (RefreshCall tok) w"
  using assms
  by (auto simp: refreshSession_begin_def getSecureValue_def Let_def
      split: if_splits option.splits)

lemma refreshSession_begin_no_token:
  assumes "\<not> truthy c" and "\<not> truthy (vault w REFRESH_TOKEN_KEY)"
  shows "refreshSession_begin p c w = (Finished False, w\<lparr> store := clearAuth (store w) \<rparr>)"
  using assms
  by (auto simp: refreshSession_begin_def getSecureValue_def Let_def truthy_cases
      split: if_splits option.splits)

lemma refreshSession_resume_failed:
  assumes "fetch_failed (refreshFetch gw tok)"
  shows "refreshSession_resume gw p tok w =
           (False, logout gw p (snd (respond (refreshFetch gw tok) w)))"
proof -
  from request_failed [OF assms] obtain err
    where "fst (request (refreshFetch gw tok) (store w)) = Inl err" by blast
  then have "fst (respond (refreshFetch gw tok) w) = Inl err" by (simp add: respond_fields)
  then show ?thesis
    by (cases "respond (refreshFetch gw tok) w") (simp add: refreshSession_resume_def)
qed

lemma refreshSession_resume_ok:
  assumes "refreshFetch gw tok = ResponseOk r"
  shows "fst (refreshSession_resume gw p tok w) = True"
    and "store (snd (refreshSession_resume gw p tok w))
           = setAuth (respUser r) (respAccessToken r) (respRefreshToken r) (store w)"
    and "gatewayLog (snd (refreshSession_resume gw p tok w)) = gatewayLog w"
  by (simp_all add: refreshSession_resume_def respond_def request_ok assms Let_def
      setSecureValue_fields)

text \<open>The two parts put together are \<open>refreshSession\<close> as it is written.\<close>

lemma refreshSession_resume_after_call:
  "refreshSession_resume gw p tok (gatewayCall (RefreshCall tok) w) =
     (case AuthService_refreshSession gw tok w of
        (Inr response, w1) \<Rightarrow>
          (let w2 = snd (setSecureValue p ACCESS_TOKEN_KEY (respAccessToken response) w1);
               w3 = snd (setSecureValue p REFRESH_TOKEN_KEY (respRefreshToken response) w2);
               w4 = snd (setSecureValue p TOKEN_EXPIRY_KEY (toString p (expiresAt response)) w3)
           in (True, w4\<lparr> store := setAuth (respUser response) (respAccessToken response)
                                         (respRefreshToken response) (store w4) \<rparr>))
      | (Inl err, w1) \<Rightarrow> (False, logout gw p w1))"
  by (simp add: refreshSession_resume_def AuthService_refreshSession_def)

lemma refreshSession_unfold_awaiting:
  assumes "fst (refreshSession_begin p captured w) = AwaitingGateway tok"
  shows "refreshSession gw p captured w
           = refreshSession_resume gw p tok (gatewayCall (RefreshCall tok) w)"
  using assms refreshSession_begin_awaiting [OF assms]
  by (cases "refreshSession_begin p captured w") (simp add: refreshSession_def)

text \<open>
  Claim C2, as the code has it. When \<open>refreshSession\<close> sends the refresh request and the
  request fails, it returns false, the store is the cleared one (\<open>isAuthenticated\<close>
  false), the entries \<open>access_token\<close>, \<open>refresh_token\<close> and \<open>token_expiry\<close> are absent
  (each one unless the platform throws on its deletion), every other entry,
  \<open>biometric_credentials\<close> among them, is as it was, and the remote service has received
  one refresh request followed by one logout request: the refresh is not tried again.
  This holds for the callback of any render, whatever token it captured.
\<close>

theorem failed_refresh_logs_out:
  assumes "fst (refreshSession_begin p captured w) = AwaitingGateway tok"
      and "fetch_failed (refreshFetch gw tok)"
  shows "fst (refreshSession gw p captured w) = False \<and>
         store (snd (refreshSession gw p captured w)) = clearAuth (store w) \<and>
         \<not> isAuthenticated (store (snd (refreshSession gw p captured w))) \<and>
         (\<forall>k \<in> token_keys. \<not> deleteThrows p k
            \<longrightarrow> vault (snd (refreshSession gw p captured w)) k = None) \<and>
         (\<forall>k. k \<notin> token_keys \<longrightarrow> vault (snd (refreshSession gw p captured w)) k = vault w k) \<and>
         gatewayLog (snd (refreshSession gw p captured w))
           = gatewayLog w @ [RefreshCall tok, LogoutCall]"
proof -
  have r: "refreshSession gw p captured w =
             (False, logout gw p (snd (respond (refreshFetch gw tok) (gatewayCall (RefreshCall tok) w))))"
    by (simp add: refreshSession_unfold_awaiting [OF assms(1)] refreshSession_resume_failed [OF assms(2)])
  show ?thesis
    by (simp add: r logout_store logout_vault logout_log respond_fields gatewayCall_fields
        clearAuth_request clearAuth_fields)
qed

lemma logged_in_store:
  "refreshToken (store logged_in_world) = Some ''refresh-token''"
  "accessToken (store logged_in_world) = Some ''access-token''"
  "isAuthenticated (store logged_in_world)"
  "user (store logged_in_world) = Some user0"
  by (simp_all add: logged_in_world_def setAuth_def)

lemma begin_with_token:
  "fst (refreshSession_begin p (Some ''refresh-token'') w) = AwaitingGateway ''refresh-token''"
  by (simp add: refreshSession_begin_def)

lemma logged_in_begin:
  "fst (refreshSession_begin p (refreshToken (store logged_in_world)) logged_in_world)
     = AwaitingGateway ''refresh-token''"
  by (simp add: logged_in_store begin_with_token)

lemma rejecting_gateway_fields:
  "fetch_failed (refreshFetch rejecting_gateway t)" "is_unauthorized (refreshFetch rejecting_gateway t)"
  "fetch_failed (loginFetch rejecting_gateway e pw)" "is_unauthorized (loginFetch rejecting_gateway e pw)"
  by (simp_all add: rejecting_gateway_def fetch_failed_def is_unauthorized_def)

theorem failed_refresh_logs_out_witness:
  "fst (refreshSession rejecting_gateway reliable_platform (refreshToken (store logged_in_world))
          logged_in_world) = False \<and>
   \<not> isAuthenticated (store (snd (refreshSession rejecting_gateway reliable_platform
          (refreshToken (store logged_in_world)) logged_in_world))) \<and>
   vault (snd (refreshSession rejecting_gateway reliable_platform
          (refreshToken (store logged_in_world)) logged_in_world)) REFRESH_TOKEN_KEY = None \<and>
   vault (snd (refreshSession rejecting_gateway reliable_platform
          (refreshToken (store logged_in_world)) logged_in_world)) BIOMETRIC_CREDENTIALS_KEY
     = Some ''test@example.com,refresh-token'' \<and>
   gatewayLog (snd (refreshSession rejecting_gateway reliable_platform
          (refreshToken (store logged_in_world)) logged_in_world))
     = [RefreshCall ''refresh-token'', LogoutCall]"
proof -
  have l: "gatewayLog logged_in_world = []" by (simp add: logged_in_world_def)
  from failed_refresh_logs_out [OF logged_in_begin rejecting_gateway_fields(1)]
       reliable_platform_fields(3) biometric_not_token_key token_keys_members logged_in_vault l
  show ?thesis by (metis (no_types, lifting) append_Nil)
qed

text \<open>
  Against C2 as stated: the refresh request fails, \<open>refreshSession\<close> returns false, and
  the \<open>biometric_credentials\<close> entry is still in the key store.
\<close>

theorem failed_refresh_keeps_biometric_entry:
  "fetch_failed (refreshFetch rejecting_gateway ''refresh-token'') \<and>
   fst (refreshSession rejecting_gateway reliable_platform (refreshToken (store logged_in_world))
          logged_in_world) = False \<and>
   vault (snd (refreshSession rejecting_gateway reliable_platform
          (refreshToken (store logged_in_world)) logged_in_world)) BIOMETRIC_CREDENTIALS_KEY
     = Some ''test@example.com,refresh-token''"
proof -
  have r: "refreshSession rejecting_gateway reliable_platform (refreshToken (store logged_in_world))
             logged_in_world =
             (False, logout rejecting_gateway reliable_platform
                (snd (respond (refreshFetch rejecting_gateway ''refresh-token'')
                        (gatewayCall (RefreshCall ''refresh-token'') logged_in_world))))"
    by (simp add: refreshSession_unfold_awaiting [OF logged_in_begin]
        refreshSession_resume_failed [OF rejecting_gateway_fields(1)])
  show ?thesis
    by (simp add: r rejecting_gateway_fields logout_vault respond_fields gatewayCall_fields
        biometric_not_token_key logged_in_vault)
qed

text \<open>
  Claim C10, as the code has it. \<open>refreshSession\<close> tests the refresh token that its
  callback captured from the session at render, not the store of the moment. When that
  captured token is null or the empty string and the key \<open>refresh_token\<close> holds none
  either, \<open>refreshSession\<close> clears the session (\<open>isAuthenticated\<close> false, both tokens null)
  and returns false; the log of remote calls and the key store are as before. For the
  callback of the latest render the captured token is the one of the store.
\<close>

theorem refreshSession_without_token:
  assumes "\<not> truthy captured" and "\<not> truthy (vault w REFRESH_TOKEN_KEY)"
  shows "fst (refreshSession gw p captured w) = False \<and>
         store (snd (refreshSession gw p captured w)) = clearAuth (store w) \<and>
         \<not> isAuthenticated (store (snd (refreshSession gw p captured w))) \<and>
         accessToken (store (snd (refreshSession gw p captured w))) = None \<and>
         refreshToken (store (snd (refreshSession gw p captured w))) = None \<and>
         gatewayLog (snd (refreshSession gw p captured w)) = gatewayLog w \<and>
         vault (snd (refreshSession gw p captured w)) = vault w"
  by (simp add: refreshSession_def refreshSession_begin_no_token [OF assms] clearAuth_fields)

theorem refreshSession_without_token_witness:
  "fst (refreshSession accepting_gateway reliable_platform (refreshToken (store profile_only_world))
          profile_only_world) = False \<and>
   \<not> isAuthenticated (store (snd (refreshSession accepting_gateway reliable_platform
          (refreshToken (store profile_only_world)) profile_only_world))) \<and>
   user (store (snd (refreshSession accepting_gateway reliable_platform
          (refreshToken (store profile_only_world)) profile_only_world))) = None \<and>
   gatewayLog (snd (refreshSession accepting_gateway reliable_platform
          (refreshToken (store profile_only_world)) profile_only_world)) = []"
proof -
  have a: "\<not> truthy (refreshToken (store profile_only_world))"
    by (simp add: profile_only_world_def setUser_def initialState_def)
  have b: "\<not> truthy (vault profile_only_world REFRESH_TOKEN_KEY)"
    by (simp add: profile_only_world_def)
  have l: "gatewayLog profile_only_world = []" by (simp add: profile_only_world_def)
  from refreshSession_without_token [OF a b, of accepting_gateway reliable_platform] l
  show ?thesis by (simp add: clearAuth_fields)
qed

text \<open>
  Against C10 as stated: after \<open>logout\<close> neither the store nor the key \<open>refresh_token\<close>
  holds a refresh token. The \<open>refreshSession\<close> callback of the render before the logout,
  which captured the token of that time, called now, sends a refresh request and, when
  the remote service accepts it, signs the user in again.
\<close>

theorem stale_callback_sends_refresh:
  "refreshToken (store (logout accepting_gateway reliable_platform logged_in_world)) = None \<and>
   vault (logout accepting_gateway reliable_platform logged_in_world) REFRESH_TOKEN_KEY = None \<and>
   fst (refreshSession accepting_gateway reliable_platform (refreshToken (store logged_in_world))
          (logout accepting_gateway reliable_platform logged_in_world)) = True \<and>
   isAuthenticated (store (snd (refreshSession accepting_gateway reliable_platform
          (refreshToken (store logged_in_world))
          (logout accepting_gateway reliable_platform logged_in_world)))) \<and>
   gatewayLog (snd (refreshSession accepting_gateway reliable_platform
          (refreshToken (store logged_in_world))
          (logout accepting_gateway reliable_platform logged_in_world)))
     = [LogoutCall, RefreshCall ''refresh-token'']"
proof -
  let ?w = "logout accepting_gateway reliable_platform logged_in_world"
  have b: "fst (refreshSession_begin reliable_platform (refreshToken (store logged_in_world)) ?w)
             = AwaitingGateway ''refresh-token''"
    by (simp add: logged_in_store begin_with_token)
  have u: "refreshSession accepting_gateway reliable_platform (refreshToken (store logged_in_world)) ?w
             = refreshSession_resume accepting_gateway reliable_platform ''refresh-token''
                 (gatewayCall (RefreshCall ''refresh-token'') ?w)"
    by (rule refreshSession_unfold_awaiting [OF b])
  have l: "gatewayLog logged_in_world = []" by (simp add: logged_in_world_def)
  have o: "refreshFetch accepting_gateway ''refresh-token'' = ResponseOk response0"
    by (simp add: accepting_gateway_def)
  show ?thesis
    by (simp add: u refreshSession_resume_ok [OF o] logout_store logout_vault logout_log
        gatewayCall_fields clearAuth_fields token_keys_members reliable_platform_fields l)
       (simp add: setAuth_def)
qed

text \<open>
  Claim C3, as the code has it. A refresh is waiting for the remote service, \<open>logout\<close>
  runs to its end, then the refresh is answered with success: \<open>refreshSession\<close> applies
  the answer without looking at the store. It returns true and the store is
  authenticated again, with the user and the tokens of the answer. This holds for the
  callback of any render, whatever token it captured.
\<close>

theorem late_refresh_result_is_applied:
  assumes "fst (refreshSession_begin p captured w) = AwaitingGateway tok"
      and "refreshFetch gw tok = ResponseOk r"
  shows "fst (refresh_then_logout_then_response gw p captured w) = True \<and>
         isAuthenticated (store (snd (refresh_then_logout_then_response gw p captured w))) \<and>
         user (store (snd (refresh_then_logout_then_response gw p captured w)))
           = Some (respUser r) \<and>
         accessToken (store (snd (refresh_then_logout_then_response gw p captured w)))
           = Some (respAccessToken r) \<and>
         refreshToken (store (snd (refresh_then_logout_then_response gw p captured w)))
           = Some (respRefreshToken r)"
proof -
  have u: "refresh_then_logout_then_response gw p captured w =
             refreshSession_resume gw p tok (logout gw p (gatewayCall (RefreshCall tok) w))"
    using assms(1) refreshSession_begin_awaiting [OF assms(1)]
    by (cases "refreshSession_begin p captured w")
       (simp add: refresh_then_logout_then_response_def)
  show ?thesis
    by (simp add: u refreshSession_resume_ok [OF assms(2)] setAuth_def)
qed

lemma accepting_gateway_fields:
  "refreshFetch accepting_gateway t = ResponseOk response0"
  "loginFetch accepting_gateway e pw = ResponseOk response0"
  by (simp_all add: accepting_gateway_def)

theorem late_refresh_result_is_applied_witness:
  "fst (refresh_then_logout_then_response accepting_gateway reliable_platform
          (refreshToken (store logged_in_world)) logged_in_world) = True \<and>
   accessToken (store (snd (refresh_then_logout_then_response accepting_gateway reliable_platform
       (refreshToken (store logged_in_world)) logged_in_world))) = Some ''new-access-token''"
  using late_refresh_result_is_applied [OF logged_in_begin accepting_gateway_fields(1)]
  by (simp add: response0_def)

text \<open>
  Against C3 as stated: \<open>logout\<close> completes while the refresh is under way, the refresh
  then succeeds, and the final state is authenticated.
\<close>

theorem logout_does_not_win_the_race:
  "isAuthenticated (store (snd (refresh_then_logout_then_response accepting_gateway
      reliable_platform (refreshToken (store logged_in_world)) logged_in_world)))"
proof -
  have u: "refresh_then_logout_then_response accepting_gateway reliable_platform
             (refreshToken (store logged_in_world)) logged_in_world =
             refreshSession_resume accepting_gateway reliable_platform ''refresh-token''
               (logout accepting_gateway reliable_platform
                  (gatewayCall (RefreshCall ''refresh-token'') logged_in_world))"
    using logged_in_begin [of reliable_platform]
          refreshSession_begin_awaiting [OF logged_in_begin, of reliable_platform]
    by (cases "refreshSession_begin reliable_platform (refreshToken (store logged_in_world))
                 logged_in_world")
       (simp add: refresh_then_logout_then_response_def)
  show ?thesis
    by (simp add: u refreshSession_resume_ok [OF accepting_gateway_fields(1)] setAuth_def)
qed

subsection \<open>Login\<close>

lemma AuthService_login_fields:
  "fst (AuthService_login gw em pw w) = fst (request (loginFetch gw em pw) (store w))"
  "store (snd (AuthService_login gw em pw w)) = snd (request (loginFetch gw em pw) (store w))"
  "vault (snd (AuthService_login gw em pw w)) = vault w"
  by (simp_all add: AuthService_login_def respond_fields gatewayCall_fields)

lemma login_failed:
  assumes "fst (request (loginFetch gw em pw) (setLoading True (store w))) = Inl err"
  shows "fst (login gw p em pw w) = Inl err"
    and "store (snd (login gw p em pw w))
           = setLoading False (snd (request (loginFetch gw em pw) (setLoading True (store w))))"
proof -
  let ?w0 = "w\<lparr> store := setLoading True (store w) \<rparr>"
  have f: "fst (AuthService_login gw em pw ?w0) = Inl err"
    using assms by (simp add: AuthService_login_fields)
  have s: "store (snd (AuthService_login gw em pw ?w0))
             = snd (request (loginFetch gw em pw) (setLoading True (store w)))"
    by (simp add: AuthService_login_fields)
  show "fst (login gw p em pw w) = Inl err"
    using f by (cases "AuthService_login gw em pw ?w0") (simp add: login_def Let_def)
  show "store (snd (login gw p em pw w))
           = setLoading False (snd (request (loginFetch gw em pw) (setLoading True (store w))))"
    using f s by (cases "AuthService_login gw em pw ?w0") (simp add: login_def Let_def)
qed

lemma vm_login_failed:
  assumes "fst (request (loginFetch gw em pw) (setError None (setLoading True (store w)))) = Inl err"
  shows "fst (vm_login gw p em pw rememberMe (vm, w)) = Inl err"
    and "store (snd (snd (vm_login gw p em pw rememberMe (vm, w))))
           = setLoading False (setError (Some (loginErrorMessage err))
               (snd (request (loginFetch gw em pw) (setError None (setLoading True (store w))))))"
proof -
  let ?w1 = "w\<lparr> store := setError None (setLoading True (store w)) \<rparr>"
  have f: "fst (AuthService_login gw em pw ?w1) = Inl err"
    using assms by (simp add: AuthService_login_fields)
  have s: "store (snd (AuthService_login gw em pw ?w1))
             = snd (request (loginFetch gw em pw) (setError None (setLoading True (store w))))"
    by (simp add: AuthService_login_fields)
  show "fst (vm_login gw p em pw rememberMe (vm, w)) = Inl err"
    using f by (cases "AuthService_login gw em pw ?w1")
      (simp add: vm_login_def clearError_def Let_def)
  show "store (snd (snd (vm_login gw p em pw rememberMe (vm, w))))
           = setLoading False (setError (Some (loginErrorMessage err))
               (snd (request (loginFetch gw em pw) (setError None (setLoading True (store w))))))"
    using f s by (cases "AuthService_login gw em pw ?w1")
      (simp add: vm_login_def clearError_def Let_def)
qed

lemma same_session_simps:
  "same_session s (setLoading b s')  = same_session s s'"
  "same_session s (setError e s') = same_session s s'"
  "same_session (setLoading b s) s'  = same_session s s'"
  "same_session (setError e s) s' = same_session s s'"
  "same_session s s"
  by (simp_all add: same_session_def setLoading_def setError_def)

lemma store_op_simps:
  "refreshToken (setLoading b s) = refreshToken s" "refreshToken (setError e s) = refreshToken s"
  "clearAuth (setLoading b s) = clearAuth s" "clearAuth (setError e s) = clearAuth s"
  by (simp_all add: setLoading_def setError_def clearAuth_def)

lemma same_session_request:
  "same_session s (snd (request outcome s')) =
     (if is_unauthorized outcome \<and> \<not> truthy (refreshToken s')
      then same_session s (clearAuth s') else same_session s s')"
  by (simp add: request_store)

text \<open>
  Claim C7, as the code has it. When the login request fails, both \<open>login\<close> functions
  rethrow the error. The fields \<open>user\<close>, \<open>accessToken\<close>, \<open>refreshToken\<close> and
  \<open>isAuthenticated\<close> are as before the call, unless the request is unauthorized (answered
  with status 401 and error data other than \<open>null\<close>, so that an \<open>ApiError\<close> of status 401
  reaches the error interceptor) and the store holds no refresh token: then the
  interceptor has called \<open>clearAuth\<close>, and the four fields are the cleared ones. A session
  that holds a refresh token is never changed by a failed login; nor is any session by a
  401 answer whose error data is \<open>null\<close>, on which \<open>handleError\<close> throws before the
  interceptor runs.
\<close>

theorem failed_login_frame:
  assumes "fetch_failed (loginFetch gw em pw)"
  shows "(\<exists>err. fst (login gw p em pw w) = Inl err) \<and>
         (\<exists>err. fst (vm_login gw p em pw rememberMe (vm, w)) = Inl err) \<and>
         (\<not> is_unauthorized (loginFetch gw em pw) \<or> truthy (refreshToken (store w))
            \<longrightarrow> same_session (store w) (store (snd (login gw p em pw w))) \<and>
                same_session (store w) (store (snd (snd (vm_login gw p em pw rememberMe (vm, w)))))) \<and>
         (is_unauthorized (loginFetch gw em pw) \<and> \<not> truthy (refreshToken (store w))
            \<longrightarrow> same_session (clearAuth (store w)) (store (snd (login gw p em pw w))) \<and>
                same_session (clearAuth (store w))
                  (store (snd (snd (vm_login gw p em pw rememberMe (vm, w))))))"
proof -
  obtain e1 where e1: "fst (request (loginFetch gw em pw) (setLoading True (store w))) = Inl e1"
    using request_failed [OF assms] by blast
  obtain e2 where e2:
    "fst (request (loginFetch gw em pw) (setError None (setLoading True (store w)))) = Inl e2"
    using request_failed [OF assms] by blast
  have a: "\<exists>err. fst (login gw p em pw w) = Inl err"
    using login_failed(1) [OF e1] by blast
  have b: "\<exists>err. fst (vm_login gw p em pw rememberMe (vm, w)) = Inl err"
    using vm_login_failed(1) [OF e2] by blast
  have c: "same_session s0 (store (snd (login gw p em pw w))) =
             (if is_unauthorized (loginFetch gw em pw) \<and> \<not> truthy (refreshToken (store w))
              then same_session s0 (clearAuth (store w)) else same_session s0 (store w))" for s0
    by (simp add: login_failed(2) [OF e1] same_session_simps same_session_request store_op_simps)
  have d: "same_session s0 (store (snd (snd (vm_login gw p em pw rememberMe (vm, w))))) =
             (if is_unauthorized (loginFetch gw em pw) \<and> \<not> truthy (refreshToken (store w))
              then same_session s0 (clearAuth (store w)) else same_session s0 (store w))" for s0
    by (simp add: vm_login_failed(2) [OF e2] same_session_simps same_session_request store_op_simps)
  show ?thesis
    using a b by (auto simp: c d same_session_simps)
qed

lemma null_body_gateway_fields:
  "fetch_failed (loginFetch null_body_gateway e pw)"
  "\<not> is_unauthorized (loginFetch null_body_gateway e pw)"
  by (simp_all add: null_body_gateway_def fetch_failed_def is_unauthorized_def)

theorem failed_login_frame_witness:
  "same_session (store logged_in_world)
     (store (snd (login rejecting_gateway reliable_platform ''test@example.com'' ''wrong-password''
        logged_in_world))) \<and>
   same_session (store logged_in_world)
     (store (snd (snd (vm_login rejecting_gateway reliable_platform ''test@example.com''
        ''wrong-password'' False (idle_view_model, logged_in_world))))) \<and>
   same_session (store profile_only_world)
     (store (snd (login null_body_gateway reliable_platform ''test@example.com'' ''wrong-password''
        profile_only_world))) \<and>
   same_session (clearAuth (store profile_only_world))
     (store (snd (login rejecting_gateway reliable_platform ''test@example.com'' ''wrong-password''
        profile_only_world)))"
proof -
  have t: "truthy (refreshToken (store logged_in_world))" by (simp add: logged_in_store)
  have n: "\<not> truthy (refreshToken (store profile_only_world))"
    by (simp add: profile_only_world_def setUser_def initialState_def)
  from failed_login_frame [of rejecting_gateway "''test@example.com''" "''wrong-password''"
         reliable_platform logged_in_world False idle_view_model,
         OF rejecting_gateway_fields(3)]
       failed_login_frame [of null_body_gateway "''test@example.com''" "''wrong-password''"
         reliable_platform profile_only_world False idle_view_model,
         OF null_body_gateway_fields(1)]
       failed_login_frame [of rejecting_gateway "''test@example.com''" "''wrong-password''"
         reliable_platform profile_only_world False idle_view_model,
         OF rejecting_gateway_fields(3)]
       t n null_body_gateway_fields(2) rejecting_gateway_fields(4)
  show ?thesis by blast
qed

lemma profile_only_store:
  "user (store profile_only_world) = Some user0"
  "refreshToken (store profile_only_world) = None"
  by (simp_all add: profile_only_world_def setUser_def initialState_def)

text \<open>
  Against C7 as stated: the store holds a user and no tokens, the login request is
  answered with status 401 and the error data \<open>{message: "Unauthorized"}\<close>, \<open>login\<close>
  rethrows the error, and the user is gone.
\<close>

theorem failed_login_can_clear_the_profile:
  "fst (login rejecting_gateway reliable_platform ''test@example.com'' ''wrong-password''
          profile_only_world)
     = Inl (ThrownApiError \<lparr> status = 401, message = ''Session expired. Please sign in again.'',
                              code = None \<rparr>) \<and>
   user (store profile_only_world) = Some user0 \<and>
   user (store (snd (login rejecting_gateway reliable_platform ''test@example.com''
          ''wrong-password'' profile_only_world))) = None"
proof -
  have r: "request (loginFetch rejecting_gateway ''test@example.com'' ''wrong-password'')
             (setLoading True (store profile_only_world))
           = (Inl (ThrownApiError \<lparr> status = 401,
                     message = ''Session expired. Please sign in again.'', code = None \<rparr>),
              clearAuth (setLoading True (store profile_only_world)))"
    by (simp add: rejecting_gateway_def request_def errorInterceptor_def
        handleUnauthorizedError_def or_default_def store_op_simps profile_only_store)
  have f: "fst (request (loginFetch rejecting_gateway ''test@example.com'' ''wrong-password'')
             (setLoading True (store profile_only_world)))
           = Inl (ThrownApiError \<lparr> status = 401,
                     message = ''Session expired. Please sign in again.'', code = None \<rparr>)"
    by (simp add: r)
  have s: "store (snd (login rejecting_gateway reliable_platform ''test@example.com''
                  ''wrong-password'' profile_only_world))
             = setLoading False (clearAuth (setLoading True (store profile_only_world)))"
    by (simp only: login_failed(2) [OF f] r snd_conv)
  have u: "user (setLoading False (clearAuth (setLoading True (store profile_only_world)))) = None"
    by (simp add: setLoading_def clearAuth_def)
  show ?thesis
    by (simp only: login_failed(1) [OF f] s u profile_only_store simp_thms)
qed

subsection \<open>The error interceptor\<close>

text \<open>
  Claim C8, as the code has it. The error interceptor leaves the store as it was for
  every error whose status is not 401 (time-out, 403, 404, 422, 429, 5xx and every other
  status), and for status 401 when the store holds a refresh token. Given an error of
  status 401 with no refresh token in the store, it calls \<open>clearAuth\<close>, without any
  refresh attempt. \<open>request\<close> as a whole changes the store in that case only: when the
  request is unauthorized (status 401, error data other than \<open>null\<close>) and the store holds
  no refresh token. A rejected \<open>fetch\<close>, and an error answer of any status whose error data
  is \<open>null\<close> (on which \<open>handleError\<close> throws a \<open>TypeError\<close> before any interceptor runs),
  leave the store as it was.
\<close>

theorem error_classification_frame:
  "(status e \<noteq> 401 \<or> truthy (refreshToken s) \<longrightarrow> snd (errorInterceptor e s) = s) \<and>
   (status e = 401 \<and> \<not> truthy (refreshToken s) \<longrightarrow> snd (errorInterceptor e s) = clearAuth s) \<and>
   (\<not> is_unauthorized outcome \<or> truthy (refreshToken s) \<longrightarrow> snd (request outcome s) = s) \<and>
   (is_unauthorized outcome \<and> \<not> truthy (refreshToken s) \<longrightarrow> snd (request outcome s) = clearAuth s) \<and>
   request (ResponseError st (NullData m) :: unit FetchOutcome) s = (Inl (ThrownError m), s) \<and>
   request (FetchRejected m :: unit FetchOutcome) s = (Inl (ThrownError m), s)"
  by (simp add: errorInterceptor_store request_store request_null_data) (simp add: request_def)

theorem error_classification_frame_witness:
  "snd (errorInterceptor unauthorized_error (store logged_in_world)) = store logged_in_world \<and>
   snd (errorInterceptor (unauthorized_error\<lparr> status := 429 \<rparr>) (setUser user0 initialState))
     = setUser user0 initialState \<and>
   snd (request (FetchAborted :: unit FetchOutcome) (setUser user0 initialState))
     = setUser user0 initialState \<and>
   snd (errorInterceptor unauthorized_error (setUser user0 initialState))
     = clearAuth (setUser user0 initialState) \<and>
   snd (request (ResponseError 401 (NullData ''Cannot read properties of null'') :: unit FetchOutcome)
          (setUser user0 initialState))
     = setUser user0 initialState"
proof -
  have t: "truthy (refreshToken (store logged_in_world))" by (simp add: logged_in_store)
  have z: "\<not> is_unauthorized
               (ResponseError 401 (NullData ''Cannot read properties of null'') :: unit FetchOutcome)"
    by (simp add: is_unauthorized_def)
  have n: "\<not> truthy (refreshToken (setUser user0 initialState))"
    by (simp add: setUser_def initialState_def)
  have s: "status unauthorized_error = 401" "status (unauthorized_error\<lparr> status := 429 \<rparr>) \<noteq> 401"
    by (simp_all add: unauthorized_error_def)
  have a: "\<not> is_unauthorized (FetchAborted :: unit FetchOutcome)" by (simp add: is_unauthorized_def)
  from error_classification_frame [of unauthorized_error "store logged_in_world"]
       error_classification_frame [of "unauthorized_error\<lparr> status := 429 \<rparr>" "setUser user0 initialState"
          "FetchAborted :: unit FetchOutcome"]
       error_classification_frame [of unauthorized_error "setUser user0 initialState"]
       error_classification_frame [of unauthorized_error "setUser user0 initialState"
          "ResponseError 401 (NullData ''Cannot read properties of null'') :: unit FetchOutcome"]
       t n s a z
  show ?thesis by blast
qed

text \<open>
  Against C8 as stated: classifying a 401 error, with no refresh attempted, removes the
  user of a store without refresh token, and logs out an authenticated store whose
  refresh token is the empty string.
\<close>

theorem unauthorized_without_refresh_token_clears:
  "snd (errorInterceptor unauthorized_error (setUser user0 initialState)) \<noteq> setUser user0 initialState \<and>
   user (setUser user0 initialState) = Some user0 \<and>
   user (snd (errorInterceptor unauthorized_error (setUser user0 initialState))) = None \<and>
   isAuthenticated (setAuth user0 ''access-token'' [] initialState) \<and>
   \<not> isAuthenticated (snd (errorInterceptor unauthorized_error
                           (setAuth user0 ''access-token'' [] initialState)))"
proof -
  have a: "snd (errorInterceptor unauthorized_error (setUser user0 initialState))
             = clearAuth (setUser user0 initialState)"
    by (simp add: errorInterceptor_store unauthorized_error_def setUser_def initialState_def)
  have b: "snd (errorInterceptor unauthorized_error (setAuth user0 ''access-token'' [] initialState))
             = clearAuth (setAuth user0 ''access-token'' [] initialState)"
    by (simp add: errorInterceptor_store unauthorized_error_def setAuth_def)
  have c: "user (clearAuth (setUser user0 initialState)) = None"
    "user (setUser user0 initialState) = Some user0"
    by (simp_all add: clearAuth_def setUser_def)
  have d: "clearAuth (setUser user0 initialState) \<noteq> setUser user0 initialState"
    using c by (metis option.distinct(1))
  show ?thesis
    by (simp add: a b c d clearAuth_fields) (simp add: setAuth_def)
qed

section \<open>The refresh threshold\<close>

declare nat_digits.simps [simp del]

lemma of_char_digit_char: "d < 10 \<Longrightarrow> (of_char (digit_char d) :: nat) = 48 + d"
  by (simp add: digit_char_def)

lemma isDigit_digit_char: "d < 10 \<Longrightarrow> isDigit (digit_char d)"
  by (simp add: isDigit_def of_char_digit_char)

lemma digit_value_digit_char: "d < 10 \<Longrightarrow> digit_value (digit_char d) = int d"
  by (simp add: digit_value_def of_char_digit_char)

lemma nat_digits_nonempty: "nat_digits n \<noteq> []"
  by (subst nat_digits.simps) simp

lemma nat_digits_all_digits: "\<forall>c \<in> set (nat_digits n). isDigit c"
proof (induction n rule: nat_digits.induct)
  case (1 n)
  show ?case
  proof (cases "n < 10")
    case True
    then show ?thesis by (subst nat_digits.simps) (simp add: isDigit_digit_char)
  next
    case False
    with 1 show ?thesis by (subst nat_digits.simps) (simp add: isDigit_digit_char)
  qed
qed

lemma digits_value_snoc: "digits_value (ds @ [c]) = 10 * digits_value ds + digit_value c"
  by (simp add: digits_value_def)

lemma digits_value_nat_digits: "digits_value (nat_digits n) = int n"
proof (induction n rule: nat_digits.induct)
  case (1 n)
  show ?case
  proof (cases "n < 10")
    case True
    then show ?thesis
      by (subst nat_digits.simps) (simp add: digits_value_def digit_value_digit_char)
  next
    case False
    then have "digits_value (nat_digits n) = 10 * int (n div 10) + int (n mod 10)"
      using 1 by (subst nat_digits.simps) (simp add: digits_value_snoc digit_value_digit_char)
    then show ?thesis by (simp add: zdiv_int zmod_int)
  qed
qed

lemma isDigit_plain: "isDigit c \<Longrightarrow> \<not> isWhiteSpace c \<and> c \<noteq> CHR ''-'' \<and> c \<noteq> CHR ''+''"
  by (auto simp: isDigit_def isWhiteSpace_def)

lemma parseInt_digits:
  assumes "ds \<noteq> []" and "\<forall>c \<in> set ds. isDigit c"
  shows "parseInt p ds = Some (toNumber p (digits_value ds))"
proof -
  obtain c r where ds: "ds = c # r" using assms(1) by (cases ds) auto
  with assms(2) have c: "isDigit c" by simp
  from assms(2) ds have tr: "takeWhile isDigit r = r" by simp
  from isDigit_plain [OF c] c show ?thesis
    by (simp add: parseInt_def ds tr)
qed

lemma parseInt_minus_digits:
  assumes "ds \<noteq> []" and "\<forall>c \<in> set ds. isDigit c"
  shows "parseInt p (CHR ''-'' # ds) = Some (toNumber p (- digits_value ds))"
proof -
  from assms(2) have t: "takeWhile isDigit ds = ds" by simp
  have w: "\<not> isWhiteSpace CHR ''-''" by (simp add: isWhiteSpace_def)
  from assms(1) show ?thesis
    by (simp add: parseInt_def w t)
qed

lemma decimal_nonempty: "decimal i \<noteq> []"
  by (simp add: decimal_def nat_digits_nonempty)

lemma parseInt_decimal: "parseInt p (decimal i) = Some (toNumber p i)"
proof (cases "i < 0")
  case True
  then show ?thesis
    by (simp add: decimal_def parseInt_minus_digits nat_digits_nonempty nat_digits_all_digits
        digits_value_nat_digits)
next
  case False
  then show ?thesis
    by (simp add: decimal_def parseInt_digits nat_digits_nonempty nat_digits_all_digits
        digits_value_nat_digits)
qed

text \<open>A safe integer printed by \<open>toString\<close> is read back by \<open>parseInt\<close>.\<close>

lemma parseInt_toString:
  "isSafeInteger i \<Longrightarrow> parseInt p (toString p i) = Some i"
  by (simp add: toString_def parseInt_decimal toNumber_def)

lemma toString_safe_nonempty: "isSafeInteger i \<Longrightarrow> toString p i \<noteq> []"
  by (simp add: toString_def decimal_nonempty)

lemma shouldRefreshToken_pure: "snd (shouldRefreshToken p now w) = w"
  by (simp add: shouldRefreshToken_def getSecureValue_def split: option.splits)

lemma shouldRefreshToken_nothing_read:
  "getThrows p TOKEN_EXPIRY_KEY \<or> vault w TOKEN_EXPIRY_KEY = None
     \<Longrightarrow> \<not> fst (shouldRefreshToken p now w)"
  by (auto simp: shouldRefreshToken_def getSecureValue_def)

lemma shouldRefreshToken_stored:
  assumes "\<not> getThrows p TOKEN_EXPIRY_KEY"
      and "vault w TOKEN_EXPIRY_KEY = Some (toString p e)"
      and "isSafeInteger e" and "isSafeInteger (e - now)"
  shows "fst (shouldRefreshToken p now w) = (e - now < REFRESH_THRESHOLD)"
  using assms
  by (simp add: shouldRefreshToken_def getSecureValue_def toString_safe_nonempty
      parseInt_toString toNumber_def)

text \<open>
  Claim C5, as the code has it. \<open>shouldRefreshToken\<close> changes neither the store nor the
  key store, whatever it is given. It returns false when the platform throws on the
  read of \<open>token_expiry\<close> or the entry is absent. When the entry is read and holds
  \<open>expiry\<close> as \<open>login\<close> and \<open>refreshSession\<close> store it (by \<open>toString\<close>), and \<open>expiry\<close>, \<open>now\<close> and
  their difference are safe integers (of magnitude at most \<open>2^53 - 1\<close>, as epochs in
  milliseconds are), it returns true exactly when \<open>expiry - now < 300000\<close>, the value of
  \<open>REFRESH_THRESHOLD\<close>: false when the difference is exactly 5 minutes, true at 5 minutes
  less 1 ms.
\<close>

theorem shouldRefreshToken_threshold:
  "snd (shouldRefreshToken p now w) = w \<and>
   REFRESH_THRESHOLD = 300000 \<and>
   (getThrows p TOKEN_EXPIRY_KEY \<or> vault w TOKEN_EXPIRY_KEY = None
      \<longrightarrow> \<not> fst (shouldRefreshToken p now w)) \<and>
   (\<not> getThrows p TOKEN_EXPIRY_KEY \<and> vault w TOKEN_EXPIRY_KEY = Some (toString p expiry) \<and>
    isSafeInteger expiry \<and> isSafeInteger now \<and> isSafeInteger (expiry - now)
      \<longrightarrow> fst (shouldRefreshToken p now w) = (expiry - now < 300000) \<and>
          (expiry - now = 300000 \<longrightarrow> \<not> fst (shouldRefreshToken p now w)) \<and>
          (expiry - now = 299999 \<longrightarrow> fst (shouldRefreshToken p now w)))"
proof -
  have t: "REFRESH_THRESHOLD = 300000" by (simp add: REFRESH_THRESHOLD_def)
  have s: "fst (shouldRefreshToken p now w) = (expiry - now < 300000)"
    if "\<not> getThrows p TOKEN_EXPIRY_KEY" "vault w TOKEN_EXPIRY_KEY = Some (toString p expiry)"
       "isSafeInteger expiry" "isSafeInteger (expiry - now)"
    using shouldRefreshToken_stored [OF that] by (simp add: t)
  from s shouldRefreshToken_nothing_read [of p w now] show ?thesis
    by (auto simp: shouldRefreshToken_pure t)
qed

lemma digit_chars:
  "digit_char 0 = CHR ''0''" "digit_char 1 = CHR ''1''" "digit_char 2 = CHR ''2''"
  "digit_char 3 = CHR ''3''" "digit_char 4 = CHR ''4''" "digit_char 5 = CHR ''5''"
  "digit_char 6 = CHR ''6''" "digit_char 7 = CHR ''7''" "digit_char 8 = CHR ''8''"
  "digit_char 9 = CHR ''9''" "digit_char (Suc 0) = CHR ''1''"
  by (simp_all add: digit_char_def char_of_eq_iff)

lemma safe_examples:
  "isSafeInteger 1700000000000" "isSafeInteger 1699999700000" "isSafeInteger 1699999700001"
  "isSafeInteger (1700000000000 - 1699999700000)" "isSafeInteger (1700000000000 - 1699999700001)"
  "isSafeInteger 1" "\<not> isSafeInteger (10 ^ 21)"
  by (simp_all add: isSafeInteger_def MAX_SAFE_INTEGER_def)

lemma decimal_example: "decimal 1700000000000 = ''1700000000000''"
  by (simp add: decimal_def nat_digits.simps digit_chars)

lemma toString_example: "toString p 1700000000000 = ''1700000000000''"
  by (simp only: toString_def safe_examples(1) if_True decimal_example)

lemma logged_in_expiry: "vault logged_in_world TOKEN_EXPIRY_KEY = Some (toString p 1700000000000)"
  by (simp only: logged_in_vault(3) toString_example)

theorem shouldRefreshToken_threshold_witness:
  "fst (shouldRefreshToken reliable_platform 1699999700000 logged_in_world) = False \<and>
   fst (shouldRefreshToken reliable_platform 1699999700001 logged_in_world) = True \<and>
   snd (shouldRefreshToken reliable_platform 1699999700000 logged_in_world) = logged_in_world \<and>
   fst (shouldRefreshToken unreadable_platform 1699999700001 logged_in_world) = False"
proof -
  have g: "\<not> getThrows reliable_platform TOKEN_EXPIRY_KEY"
    by (simp add: reliable_platform_def)
  have u: "getThrows unreadable_platform TOKEN_EXPIRY_KEY"
    by (simp add: unreadable_platform_def)
  have x: "\<not> (1700000000000 - 1699999700000 < (300000::int))"
          "1700000000000 - 1699999700001 < (300000::int)" by simp_all
  from shouldRefreshToken_threshold
         [of reliable_platform 1699999700000 logged_in_world 1700000000000]
       shouldRefreshToken_threshold
         [of reliable_platform 1699999700001 logged_in_world 1700000000000]
       shouldRefreshToken_threshold
         [of unreadable_platform 1699999700001 logged_in_world 1700000000000]
       g u x logged_in_expiry [of reliable_platform] safe_examples
  show ?thesis by blast
qed

text \<open>
  Against C5 as stated. First: the entry holds an expiry one second ahead, the platform
  throws on the read, and \<open>shouldRefreshToken\<close> returns false. Second: the expiry is
  \<open>1e21\<close>, which \<open>toString\<close> stored as \<open>1e+21\<close>; \<open>parseInt\<close> reads 1 from it, and
  \<open>shouldRefreshToken\<close> returns true although the expiry is far more than 5 minutes ahead.
\<close>

theorem shouldRefreshToken_misses_the_threshold:
  "vault logged_in_world TOKEN_EXPIRY_KEY = Some (toString unreadable_platform 1700000000000) \<and>
   1700000000000 - 1699999999000 < (300000::int) \<and>
   \<not> fst (shouldRefreshToken unreadable_platform 1699999999000 logged_in_world) \<and>
   vault far_future_world TOKEN_EXPIRY_KEY = Some (toString reliable_platform (10 ^ 21)) \<and>
   \<not> (10 ^ 21 - 1700000000000 < (300000::int)) \<and>
   fst (shouldRefreshToken reliable_platform 1700000000000 far_future_world)"
proof -
  have a: "\<not> fst (shouldRefreshToken unreadable_platform 1699999999000 logged_in_world)"
    by (rule shouldRefreshToken_nothing_read) (simp add: unreadable_platform_def)
  have e: "toString reliable_platform (10 ^ 21) = ''1e+21''"
    by (simp only: toString_def safe_examples(7) if_False) (simp add: reliable_platform_def)
  have v: "vault far_future_world TOKEN_EXPIRY_KEY = Some ''1e+21''"
    by (simp only: far_future_world_def e) simp
  have d: "isDigit CHR ''1''" "\<not> isDigit CHR ''e''" "\<not> isWhiteSpace CHR ''1''"
    by (simp_all add: isDigit_def isWhiteSpace_def)
  have n: "parseInt reliable_platform ''1e+21'' = Some 1"
    by (simp add: parseInt_def d digits_value_def digit_value_def toNumber_def safe_examples(6))
  have m: "isSafeInteger (- 1699999999999)"
    by (simp add: isSafeInteger_def MAX_SAFE_INTEGER_def)
  have b: "fst (shouldRefreshToken reliable_platform 1700000000000 far_future_world)"
    by (simp add: shouldRefreshToken_def getSecureValue_def reliable_platform_fields v n
        toNumber_def m REFRESH_THRESHOLD_def)
  have c: "\<not> (10 ^ 21 - 1700000000000 < (300000::int))" by simp
  from a b c v e logged_in_expiry [of unreadable_platform] show ?thesis by simp
qed

end
